theory Spec2Isabelle
  imports Complex_Main
begin

section \<open>JavaScript numbers\<close>

text \<open>
  The module under verification (\<^verbatim>\<open>convertArcParams\<close>, \<^verbatim>\<open>arcBound\<close> and their helpers
  \<^verbatim>\<open>norm\<close> and \<^verbatim>\<open>angle\<close>) computes on JavaScript numbers.  A number is modelled as an
  exact real, or one of the special values of IEEE 754 that the code relies on: the
  negative zero, the two infinities and NaN.  \<open>Fin 0\<close> is the positive zero.  The
  operations follow ECMAScript on the special values (\<open>1 / 0\<close> is \<open>Infinity\<close>,
  \<open>0 / 0\<close> and \<open>Infinity * 0\<close> are \<open>NaN\<close>, \<open>Math.sqrt\<close> of a negative number and
  \<open>Math.acos\<close> outside \<open>[-1, 1]\<close> are \<open>NaN\<close>, \<open>Math.atan(Infinity)\<close> is \<open>pi / 2\<close>) and are
  exact on finite values: rounding, overflow and underflow are outside the model.
\<close>

datatype jsnum = Fin real | NegZero | PInf | NInf | NaN

fun is_fin :: "jsnum \<Rightarrow> bool" where
  "is_fin (Fin r) = True"
| "is_fin NegZero = True"
| "is_fin PInf = False"
| "is_fin NInf = False"
| "is_fin NaN = False"

fun val :: "jsnum \<Rightarrow> real" where
  "val (Fin r) = r"
| "val NegZero = 0"
| "val PInf = 0"
| "val NInf = 0"
| "val NaN = 0"

fun is_inf :: "jsnum \<Rightarrow> bool" where
  "is_inf PInf = True"
| "is_inf NInf = True"
| "is_inf (Fin r) = False"
| "is_inf NegZero = False"
| "is_inf NaN = False"

text \<open>The sign bit: set on negative numbers, on the negative zero and on \<open>-Infinity\<close>.\<close>

fun is_neg :: "jsnum \<Rightarrow> bool" where
  "is_neg (Fin r) = (r < 0)"
| "is_neg NegZero = True"
| "is_neg NInf = True"
| "is_neg PInf = False"
| "is_neg NaN = False"

definition is_zero :: "jsnum \<Rightarrow> bool" where
  "is_zero a = (is_fin a \<and> val a = 0)"

definition zero_of :: "bool \<Rightarrow> jsnum" where
  "zero_of s = (if s then NegZero else Fin 0)"

definition inf_of :: "bool \<Rightarrow> jsnum" where
  "inf_of s = (if s then NInf else PInf)"

text \<open>A finite result \<open>r\<close>; when it is zero, its sign bit is \<open>s\<close>.\<close>

definition fin_of :: "bool \<Rightarrow> real \<Rightarrow> jsnum" where
  "fin_of s r = (if r = 0 then zero_of s else Fin r)"

fun js_neg :: "jsnum \<Rightarrow> jsnum" where
  "js_neg (Fin r) = (if r = 0 then NegZero else Fin (- r))"
| "js_neg NegZero = Fin 0"
| "js_neg PInf = NInf"
| "js_neg NInf = PInf"
| "js_neg NaN = NaN"

definition js_add :: "jsnum \<Rightarrow> jsnum \<Rightarrow> jsnum" where
  "js_add a b =
     (if a = NaN \<or> b = NaN then NaN
      else if is_inf a \<and> is_inf b then (if a = b then a else NaN)
      else if is_inf a then a
      else if is_inf b then b
      else if a = NegZero \<and> b = NegZero then NegZero
      else Fin (val a + val b))"

definition js_sub :: "jsnum \<Rightarrow> jsnum \<Rightarrow> jsnum" where
  "js_sub a b = js_add a (js_neg b)"

definition js_mul :: "jsnum \<Rightarrow> jsnum \<Rightarrow> jsnum" where
  "js_mul a b =
     (if a = NaN \<or> b = NaN then NaN
      else if (is_inf a \<and> is_zero b) \<or> (is_zero a \<and> is_inf b) then NaN
      else if is_inf a \<or> is_inf b then inf_of (is_neg a \<noteq> is_neg b)
      else fin_of (is_neg a \<noteq> is_neg b) (val a * val b))"

definition js_div :: "jsnum \<Rightarrow> jsnum \<Rightarrow> jsnum" where
  "js_div a b =
     (if a = NaN \<or> b = NaN then NaN
      else if (is_inf a \<and> is_inf b) \<or> (is_zero a \<and> is_zero b) then NaN
      else if is_inf a \<or> is_zero b then inf_of (is_neg a \<noteq> is_neg b)
      else if is_inf b then zero_of (is_neg a \<noteq> is_neg b)
      else fin_of (is_neg a \<noteq> is_neg b) (val a / val b))"

text \<open>
  The remainder operator \<^verbatim>\<open>%\<close>: the quotient is truncated towards zero and the result
  has the sign of the dividend.
\<close>

definition trunc :: "real \<Rightarrow> real" where
  "trunc q = (if 0 \<le> q then of_int \<lfloor>q\<rfloor> else of_int \<lceil>q\<rceil>)"

definition js_rem :: "jsnum \<Rightarrow> jsnum \<Rightarrow> jsnum" where
  "js_rem a b =
     (if a = NaN \<or> b = NaN \<or> is_inf a \<or> is_zero b then NaN
      else if is_inf b then a
      else fin_of (is_neg a) (val a - val b * trunc (val a / val b)))"

text \<open>The comparisons \<^verbatim>\<open><\<close>, \<^verbatim>\<open>>\<close> and \<^verbatim>\<open>==\<close>: false whenever an operand is NaN.\<close>

definition js_lt :: "jsnum \<Rightarrow> jsnum \<Rightarrow> bool" where
  "js_lt a b =
     (if a = NaN \<or> b = NaN then False
      else if a = PInf \<or> b = NInf then False
      else if a = NInf \<or> b = PInf then True
      else val a < val b)"

definition js_gt :: "jsnum \<Rightarrow> jsnum \<Rightarrow> bool" where
  "js_gt a b = js_lt b a"

definition js_eq :: "jsnum \<Rightarrow> jsnum \<Rightarrow> bool" where
  "js_eq a b =
     (if a = NaN \<or> b = NaN then False
      else if is_inf a \<or> is_inf b then a = b
      else val a = val b)"

text \<open>
  \<^verbatim>\<open>Math.max\<close> and \<^verbatim>\<open>Math.min\<close>: NaN when an argument is NaN; the positive zero is
  larger than the negative one; without arguments they are \<open>-Infinity\<close> and \<open>Infinity\<close>.
\<close>

definition js_max2 :: "jsnum \<Rightarrow> jsnum \<Rightarrow> jsnum" where
  "js_max2 a b =
     (if a = NaN \<or> b = NaN then NaN
      else if js_lt a b then b
      else if js_lt b a then a
      else if a = NegZero then b else a)"

definition js_min2 :: "jsnum \<Rightarrow> jsnum \<Rightarrow> jsnum" where
  "js_min2 a b =
     (if a = NaN \<or> b = NaN then NaN
      else if js_lt a b then a
      else if js_lt b a then b
      else if b = NegZero then b else a)"

definition Math_max :: "jsnum list \<Rightarrow> jsnum" where
  "Math_max xs = foldl js_max2 NInf xs"

definition Math_min :: "jsnum list \<Rightarrow> jsnum" where
  "Math_min xs = foldl js_min2 PInf xs"

definition Math_PI :: jsnum where
  "Math_PI = Fin pi"

fun Math_abs :: "jsnum \<Rightarrow> jsnum" where
  "Math_abs (Fin r) = Fin \<bar>r\<bar>"
| "Math_abs NegZero = Fin 0"
| "Math_abs PInf = PInf"
| "Math_abs NInf = PInf"
| "Math_abs NaN = NaN"

fun Math_sqrt :: "jsnum \<Rightarrow> jsnum" where
  "Math_sqrt (Fin r) = (if r < 0 then NaN else Fin (sqrt r))"
| "Math_sqrt NegZero = NegZero"
| "Math_sqrt PInf = PInf"
| "Math_sqrt NInf = NaN"
| "Math_sqrt NaN = NaN"

fun Math_sin :: "jsnum \<Rightarrow> jsnum" where
  "Math_sin (Fin r) = Fin (sin r)"
| "Math_sin NegZero = NegZero"
| "Math_sin PInf = NaN"
| "Math_sin NInf = NaN"
| "Math_sin NaN = NaN"

fun Math_cos :: "jsnum \<Rightarrow> jsnum" where
  "Math_cos (Fin r) = Fin (cos r)"
| "Math_cos NegZero = Fin 1"
| "Math_cos PInf = NaN"
| "Math_cos NInf = NaN"
| "Math_cos NaN = NaN"

fun Math_acos :: "jsnum \<Rightarrow> jsnum" where
  "Math_acos (Fin r) = (if - 1 \<le> r \<and> r \<le> 1 then Fin (arccos r) else NaN)"
| "Math_acos NegZero = Fin (arccos 0)"
| "Math_acos PInf = NaN"
| "Math_acos NInf = NaN"
| "Math_acos NaN = NaN"

fun Math_atan :: "jsnum \<Rightarrow> jsnum" where
  "Math_atan (Fin r) = Fin (arctan r)"
| "Math_atan NegZero = NegZero"
| "Math_atan PInf = Fin (pi / 2)"
| "Math_atan NInf = Fin (- (pi / 2))"
| "Math_atan NaN = NaN"

section \<open>The data model\<close>

text \<open>
  The interfaces \<^verbatim>\<open>Point\<close>, \<^verbatim>\<open>Vector\<close>, \<^verbatim>\<open>Rect\<close>, \<^verbatim>\<open>Arc\<close> and \<^verbatim>\<open>ArcAlt\<close>.  A field
  name carries the prefix of its interface, since \<^verbatim>\<open>x\<close>, \<^verbatim>\<open>y\<close>, \<^verbatim>\<open>rx\<close> and \<^verbatim>\<open>ry\<close> are
  fields of several of them and \<^verbatim>\<open>end\<close> is reserved.  The rotation of an \<^verbatim>\<open>Arc\<close> is
  in degrees.
\<close>

record Point =
  pt_x :: jsnum
  pt_y :: jsnum

record Vector =
  vec_x :: jsnum
  vec_y :: jsnum

record Rect =
  rect_left :: jsnum
  rect_right :: jsnum
  rect_top :: jsnum
  rect_bottom :: jsnum

record Arc =
  arc_start :: Point
  arc_end :: Point
  arc_rx :: jsnum
  arc_ry :: jsnum
  arc_rotation :: jsnum
  arc_largeArc :: bool
  arc_sweep :: bool

record ArcAlt =
  alt_phi :: jsnum
  alt_rx :: jsnum
  alt_ry :: jsnum
  alt_cx :: jsnum
  alt_cy :: jsnum
  alt_theta1 :: jsnum
  alt_dtheta :: jsnum

section \<open>The angle between two vectors\<close>

text \<open>
  The helpers \<^verbatim>\<open>norm\<close> and \<^verbatim>\<open>angle\<close>.  \<^verbatim>\<open>norm\<close> is named \<open>norm_vec\<close> here, \<open>norm\<close> being a
  constant of the library.  The source documents the result of \<^verbatim>\<open>angle\<close> as a number of
  radians in \<open>[-pi, pi]\<close>.
\<close>

definition norm_vec :: "Vector \<Rightarrow> jsnum" where
  "norm_vec v =
     Math_sqrt (js_add (js_mul (vec_x v) (vec_x v)) (js_mul (vec_y v) (vec_y v)))"

definition angle :: "Vector \<Rightarrow> Vector \<Rightarrow> jsnum" where
  "angle u v =
     (let product = js_add (js_mul (vec_x u) (vec_x v)) (js_mul (vec_y u) (vec_y v));
          sign = (if js_lt (js_sub (js_mul (vec_x u) (vec_y v)) (js_mul (vec_y u) (vec_x v)))
                       (Fin 0)
                  then Fin (- 1) else Fin 1)
      in js_mul sign (Math_acos (js_div product (js_mul (norm_vec u) (norm_vec v)))))"

section \<open>Conversion to the center parameterization\<close>

text \<open>
  \<^verbatim>\<open>convertArcParams\<close>.  The source reassigns \<^verbatim>\<open>rx\<close>, \<^verbatim>\<open>ry\<close> and \<^verbatim>\<open>dtheta\<close>; here a
  later binding of the same name shadows the earlier one.
\<close>

definition convertArcParams :: "Arc \<Rightarrow> ArcAlt" where
  "convertArcParams arc =
     (let rx = arc_rx arc; ry = arc_ry arc; rotation = arc_rotation arc;
          x1 = pt_x (arc_start arc); y1 = pt_y (arc_start arc);
          x2 = pt_x (arc_end arc); y2 = pt_y (arc_end arc);
          largeArc = arc_largeArc arc; sweep = arc_sweep arc;
          phi = js_mul (js_div (js_rem rotation (Fin 180)) (Fin 180)) Math_PI;
          sinPhi = Math_sin phi; cosPhi = Math_cos phi
      in if js_eq rx (Fin 0) \<or> js_eq ry (Fin 0) then
           \<lparr>alt_phi = phi, alt_rx = rx, alt_ry = ry,
            alt_cx = js_div (js_add x1 x2) (Fin 2),
            alt_cy = js_div (js_add y1 y2) (Fin 2),
            alt_theta1 = Fin 0,
            alt_dtheta = Math_PI\<rparr>
         else
           let rx = Math_abs rx;
               ry = Math_abs ry;
               dx2 = js_div (js_sub x1 x2) (Fin 2); dy2 = js_div (js_sub y1 y2) (Fin 2);
               x1p = js_add (js_mul cosPhi dx2) (js_mul sinPhi dy2);
               y1p = js_add (js_mul (js_neg sinPhi) dx2) (js_mul cosPhi dy2);
               x1p2 = js_mul x1p x1p; y1p2 = js_mul y1p y1p;
               sqrtLambda = Math_sqrt (js_add (js_div x1p2 (js_mul rx rx))
                                              (js_div y1p2 (js_mul ry ry)));
               (rx, ry) = (if js_gt sqrtLambda (Fin 1)
                           then (js_mul sqrtLambda rx, js_mul sqrtLambda ry)
                           else (rx, ry));
               rx2 = js_mul rx rx; ry2 = js_mul ry ry;
               cFactorA = js_max2 (Fin 0)
                            (js_sub (js_sub (js_mul rx2 ry2) (js_mul rx2 y1p2))
                                    (js_mul ry2 x1p2));
               cFactor = js_mul (Math_sqrt (js_div cFactorA
                                    (js_add (js_mul rx2 y1p2) (js_mul ry2 x1p2))))
                                (if largeArc = sweep then Fin (- 1) else Fin 1);
               cxp = js_div (js_mul (js_mul cFactor rx) y1p) ry;
               cyp = js_div (js_mul (js_mul (js_neg cFactor) ry) x1p) rx;
               cx = js_add (js_sub (js_mul cosPhi cxp) (js_mul sinPhi cyp))
                           (js_div (js_add x1 x2) (Fin 2));
               cy = js_add (js_add (js_mul sinPhi cxp) (js_mul cosPhi cyp))
                           (js_div (js_add y1 y2) (Fin 2));
               vec1 = \<lparr>vec_x = js_div (js_sub x1p cxp) rx,
                       vec_y = js_div (js_sub y1p cyp) ry\<rparr>;
               vec2 = \<lparr>vec_x = js_div (js_sub (js_neg x1p) cxp) rx,
                       vec_y = js_div (js_sub (js_neg y1p) cyp) ry\<rparr>;
               theta1 = angle \<lparr>vec_x = Fin 1, vec_y = Fin 0\<rparr> vec1;
               dtheta = angle vec1 vec2;
               dtheta = (if \<not> sweep \<and> js_gt dtheta (Fin 0)
                         then js_sub dtheta (js_mul (Fin 2) Math_PI)
                         else if sweep \<and> js_lt dtheta (Fin 0)
                         then js_add dtheta (js_mul (Fin 2) Math_PI)
                         else dtheta)
           in \<lparr>alt_phi = phi, alt_rx = rx, alt_ry = ry, alt_cx = cx, alt_cy = cy,
               alt_theta1 = theta1, alt_dtheta = dtheta\<rparr>)"

section \<open>The bounding box\<close>

text \<open>
  \<^verbatim>\<open>arcBound\<close>.  The loop over the five offsets pushes onto the two arrays of candidate
  extrema; it is a left fold over the offsets whose state is the pair of arrays.
\<close>

definition arcBound :: "Arc \<Rightarrow> Rect" where
  "arcBound arc =
     (let x1 = pt_x (arc_start arc); y1 = pt_y (arc_start arc);
          x2 = pt_x (arc_end arc); y2 = pt_y (arc_end arc)
      in if js_eq (arc_rx arc) (Fin 0) \<or> js_eq (arc_ry arc) (Fin 0)
            \<or> (js_eq x1 x2 \<and> js_eq y1 y2) then
           \<lparr>rect_left = Math_min [x1, x2],
            rect_right = Math_max [x1, x2],
            rect_top = Math_min [y1, y2],
            rect_bottom = Math_max [y1, y2]\<rparr>
         else
           let alt = convertArcParams arc;
               phi = alt_phi alt; rx = alt_rx alt; ry = alt_ry alt;
               cx = alt_cx alt; cy = alt_cy alt;
               theta1 = alt_theta1 alt; dtheta = alt_dtheta alt;
               sinPhi = Math_sin phi; cosPhi = Math_cos phi;
               tanPhi = js_div sinPhi cosPhi;
               thetaExtremaX = Math_atan (js_mul (js_div (js_neg ry) rx) tanPhi);
               thetaExtremaY = Math_atan (js_div (js_div ry rx) tanPhi);
               (maybeExtremaXs, maybeExtremaYs) =
                 foldl (\<lambda>(maybeExtremaXs, maybeExtremaYs) offset.
                    let thetaX = js_add thetaExtremaX offset;
                        thetaY = js_add thetaExtremaY offset;
                        ratioX = js_div (js_sub thetaX theta1) dtheta;
                        ratioY = js_div (js_sub thetaY theta1) dtheta
                    in (if js_gt ratioX (Fin 0) \<and> js_lt ratioX (Fin 1)
                        then maybeExtremaXs @
                          [js_add (js_sub (js_mul (js_mul rx cosPhi) (Math_cos thetaX))
                                          (js_mul (js_mul ry sinPhi) (Math_sin thetaX))) cx]
                        else maybeExtremaXs,
                        if js_gt ratioY (Fin 0) \<and> js_lt ratioY (Fin 1)
                        then maybeExtremaYs @
                          [js_add (js_add (js_mul (js_mul rx sinPhi) (Math_cos thetaY))
                                          (js_mul (js_mul ry cosPhi) (Math_sin thetaY))) cy]
                        else maybeExtremaYs))
                   ([x1, x2], [y1, y2])
                   [js_mul (Fin (- 2)) Math_PI, js_neg Math_PI, Fin 0, Math_PI,
                    js_mul (Fin 2) Math_PI]
           in \<lparr>rect_left = Math_min maybeExtremaXs,
               rect_right = Math_max maybeExtremaXs,
               rect_top = Math_min maybeExtremaYs,
               rect_bottom = Math_max maybeExtremaYs\<rparr>)"

section \<open>The intermediate values of the conversion\<close>

text \<open>
  The local variables of \<^verbatim>\<open>convertArcParams\<close> after its early return, each as a function
  of the arc: \<open>x1p_of arc\<close> is the value of \<^verbatim>\<open>x1p\<close>, and so on.  \<open>rx_of\<close> and \<open>ry_of\<close>
  are the radii after the correction, \<open>dtheta0_of\<close> is \<^verbatim>\<open>dtheta\<close> before the adjustment by
  \<open>2 * pi\<close> and \<open>dtheta_of\<close> after it.  Lemma \<open>convertArcParams_unfold\<close> below shows that
  these are the values the function computes.
\<close>

definition phi_of :: "Arc \<Rightarrow> jsnum" where
  "phi_of arc = js_mul (js_div (js_rem (arc_rotation arc) (Fin 180)) (Fin 180)) Math_PI"

definition sinPhi_of :: "Arc \<Rightarrow> jsnum" where
  "sinPhi_of arc = Math_sin (phi_of arc)"

definition cosPhi_of :: "Arc \<Rightarrow> jsnum" where
  "cosPhi_of arc = Math_cos (phi_of arc)"

definition dx2_of :: "Arc \<Rightarrow> jsnum" where
  "dx2_of arc = js_div (js_sub (pt_x (arc_start arc)) (pt_x (arc_end arc))) (Fin 2)"

definition dy2_of :: "Arc \<Rightarrow> jsnum" where
  "dy2_of arc = js_div (js_sub (pt_y (arc_start arc)) (pt_y (arc_end arc))) (Fin 2)"

definition x1p_of :: "Arc \<Rightarrow> jsnum" where
  "x1p_of arc = js_add (js_mul (cosPhi_of arc) (dx2_of arc)) (js_mul (sinPhi_of arc) (dy2_of arc))"

definition y1p_of :: "Arc \<Rightarrow> jsnum" where
  "y1p_of arc = js_add (js_mul (js_neg (sinPhi_of arc)) (dx2_of arc)) (js_mul (cosPhi_of arc) (dy2_of arc))"

definition x1p2_of :: "Arc \<Rightarrow> jsnum" where
  "x1p2_of arc = js_mul (x1p_of arc) (x1p_of arc)"

definition y1p2_of :: "Arc \<Rightarrow> jsnum" where
  "y1p2_of arc = js_mul (y1p_of arc) (y1p_of arc)"

definition sqrtLambda_of :: "Arc \<Rightarrow> jsnum" where
  "sqrtLambda_of arc =
     Math_sqrt (js_add (js_div (x1p2_of arc) (js_mul (Math_abs (arc_rx arc)) (Math_abs (arc_rx arc))))
                       (js_div (y1p2_of arc) (js_mul (Math_abs (arc_ry arc)) (Math_abs (arc_ry arc)))))"

definition rx_of :: "Arc \<Rightarrow> jsnum" where
  "rx_of arc = (if js_gt (sqrtLambda_of arc) (Fin 1)
                then js_mul (sqrtLambda_of arc) (Math_abs (arc_rx arc)) else Math_abs (arc_rx arc))"

definition ry_of :: "Arc \<Rightarrow> jsnum" where
  "ry_of arc = (if js_gt (sqrtLambda_of arc) (Fin 1)
                then js_mul (sqrtLambda_of arc) (Math_abs (arc_ry arc)) else Math_abs (arc_ry arc))"

definition rx2_of :: "Arc \<Rightarrow> jsnum" where
  "rx2_of arc = js_mul (rx_of arc) (rx_of arc)"

definition ry2_of :: "Arc \<Rightarrow> jsnum" where
  "ry2_of arc = js_mul (ry_of arc) (ry_of arc)"

definition cFactorA_of :: "Arc \<Rightarrow> jsnum" where
  "cFactorA_of arc = js_max2 (Fin 0)
      (js_sub (js_sub (js_mul (rx2_of arc) (ry2_of arc)) (js_mul (rx2_of arc) (y1p2_of arc)))
              (js_mul (ry2_of arc) (x1p2_of arc)))"

definition cFactor_of :: "Arc \<Rightarrow> jsnum" where
  "cFactor_of arc = js_mul (Math_sqrt (js_div (cFactorA_of arc)
         (js_add (js_mul (rx2_of arc) (y1p2_of arc)) (js_mul (ry2_of arc) (x1p2_of arc)))))
         (if arc_largeArc arc = arc_sweep arc then Fin (- 1) else Fin 1)"

definition cxp_of :: "Arc \<Rightarrow> jsnum" where
  "cxp_of arc = js_div (js_mul (js_mul (cFactor_of arc) (rx_of arc)) (y1p_of arc)) (ry_of arc)"

definition cyp_of :: "Arc \<Rightarrow> jsnum" where
  "cyp_of arc = js_div (js_mul (js_mul (js_neg (cFactor_of arc)) (ry_of arc)) (x1p_of arc)) (rx_of arc)"

definition cx_of :: "Arc \<Rightarrow> jsnum" where
  "cx_of arc = js_add (js_sub (js_mul (cosPhi_of arc) (cxp_of arc)) (js_mul (sinPhi_of arc) (cyp_of arc)))
                      (js_div (js_add (pt_x (arc_start arc)) (pt_x (arc_end arc))) (Fin 2))"

definition cy_of :: "Arc \<Rightarrow> jsnum" where
  "cy_of arc = js_add (js_add (js_mul (sinPhi_of arc) (cxp_of arc)) (js_mul (cosPhi_of arc) (cyp_of arc)))
                      (js_div (js_add (pt_y (arc_start arc)) (pt_y (arc_end arc))) (Fin 2))"

definition vec1_of :: "Arc \<Rightarrow> Vector" where
  "vec1_of arc = \<lparr>vec_x = js_div (js_sub (x1p_of arc) (cxp_of arc)) (rx_of arc),
                  vec_y = js_div (js_sub (y1p_of arc) (cyp_of arc)) (ry_of arc)\<rparr>"

definition vec2_of :: "Arc \<Rightarrow> Vector" where
  "vec2_of arc = \<lparr>vec_x = js_div (js_sub (js_neg (x1p_of arc)) (cxp_of arc)) (rx_of arc),
                  vec_y = js_div (js_sub (js_neg (y1p_of arc)) (cyp_of arc)) (ry_of arc)\<rparr>"

definition theta1_of :: "Arc \<Rightarrow> jsnum" where
  "theta1_of arc = angle \<lparr>vec_x = Fin 1, vec_y = Fin 0\<rparr> (vec1_of arc)"

definition dtheta0_of :: "Arc \<Rightarrow> jsnum" where
  "dtheta0_of arc = angle (vec1_of arc) (vec2_of arc)"

definition dtheta_of :: "Arc \<Rightarrow> jsnum" where
  "dtheta_of arc =
     (if \<not> arc_sweep arc \<and> js_gt (dtheta0_of arc) (Fin 0)
      then js_sub (dtheta0_of arc) (js_mul (Fin 2) Math_PI)
      else if arc_sweep arc \<and> js_lt (dtheta0_of arc) (Fin 0)
      then js_add (dtheta0_of arc) (js_mul (Fin 2) Math_PI)
      else dtheta0_of arc)"

text \<open>
  Two real quantities of the proofs, for an arc whose values are finite: the sum
  \<open>x1p\<^sup>2 / rx\<^sup>2 + y1p\<^sup>2 / ry\<^sup>2\<close> for the radii given (the argument of the square root
  in \<^verbatim>\<open>sqrtLambda\<close>) and for the radii returned.
\<close>

definition Lambda_of :: "Arc \<Rightarrow> real" where
  "Lambda_of arc =
     (val (x1p_of arc))\<^sup>2 / (val (arc_rx arc))\<^sup>2 + (val (y1p_of arc))\<^sup>2 / (val (arc_ry arc))\<^sup>2"

definition mu_of :: "Arc \<Rightarrow> real" where
  "mu_of arc =
     (val (x1p_of arc))\<^sup>2 / (val (rx_of arc))\<^sup>2 + (val (y1p_of arc))\<^sup>2 / (val (ry_of arc))\<^sup>2"

section \<open>The intermediate values of the bounding box\<close>

text \<open>
  The local variables of \<^verbatim>\<open>arcBound\<close> on its general path, and the body of its loop.
  \<open>ratio_of arc theta\<close> is \<^verbatim>\<open>ratioX\<close> (\<^verbatim>\<open>ratioY\<close>) for the angle \<open>theta\<close>, \<open>extremaX_at\<close> and
  \<open>extremaY_at\<close> are the values pushed, and \<open>extrema_of\<close> is the pair of arrays after the
  loop.
\<close>

definition tanPhi_of :: "Arc \<Rightarrow> jsnum" where
  "tanPhi_of arc =
     js_div (Math_sin (alt_phi (convertArcParams arc)))
            (Math_cos (alt_phi (convertArcParams arc)))"

definition thetaExtremaX_of :: "Arc \<Rightarrow> jsnum" where
  "thetaExtremaX_of arc =
     Math_atan (js_mul (js_div (js_neg (alt_ry (convertArcParams arc)))
                               (alt_rx (convertArcParams arc)))
                       (tanPhi_of arc))"

definition thetaExtremaY_of :: "Arc \<Rightarrow> jsnum" where
  "thetaExtremaY_of arc =
     Math_atan (js_div (js_div (alt_ry (convertArcParams arc))
                               (alt_rx (convertArcParams arc)))
                       (tanPhi_of arc))"

definition ratio_of :: "Arc \<Rightarrow> jsnum \<Rightarrow> jsnum" where
  "ratio_of arc theta =
     js_div (js_sub theta (alt_theta1 (convertArcParams arc)))
            (alt_dtheta (convertArcParams arc))"

definition extremaX_at :: "Arc \<Rightarrow> jsnum \<Rightarrow> jsnum" where
  "extremaX_at arc thetaX =
     js_add (js_sub (js_mul (js_mul (alt_rx (convertArcParams arc))
                                    (Math_cos (alt_phi (convertArcParams arc))))
                            (Math_cos thetaX))
                    (js_mul (js_mul (alt_ry (convertArcParams arc))
                                    (Math_sin (alt_phi (convertArcParams arc))))
                            (Math_sin thetaX)))
            (alt_cx (convertArcParams arc))"

definition extremaY_at :: "Arc \<Rightarrow> jsnum \<Rightarrow> jsnum" where
  "extremaY_at arc thetaY =
     js_add (js_add (js_mul (js_mul (alt_rx (convertArcParams arc))
                                    (Math_sin (alt_phi (convertArcParams arc))))
                            (Math_cos thetaY))
                    (js_mul (js_mul (alt_ry (convertArcParams arc))
                                    (Math_cos (alt_phi (convertArcParams arc))))
                            (Math_sin thetaY)))
            (alt_cy (convertArcParams arc))"

definition loop_body :: "Arc \<Rightarrow> jsnum list \<times> jsnum list \<Rightarrow> jsnum \<Rightarrow> jsnum list \<times> jsnum list" where
  "loop_body arc acc offset =
     (if js_gt (ratio_of arc (js_add (thetaExtremaX_of arc) offset)) (Fin 0)
         \<and> js_lt (ratio_of arc (js_add (thetaExtremaX_of arc) offset)) (Fin 1)
      then fst acc @ [extremaX_at arc (js_add (thetaExtremaX_of arc) offset)]
      else fst acc,
      if js_gt (ratio_of arc (js_add (thetaExtremaY_of arc) offset)) (Fin 0)
         \<and> js_lt (ratio_of arc (js_add (thetaExtremaY_of arc) offset)) (Fin 1)
      then snd acc @ [extremaY_at arc (js_add (thetaExtremaY_of arc) offset)]
      else snd acc)"

definition offsets :: "jsnum list" where
  "offsets = [js_mul (Fin (- 2)) Math_PI, js_neg Math_PI, Fin 0, Math_PI,
              js_mul (Fin 2) Math_PI]"

definition extrema_of :: "Arc \<Rightarrow> jsnum list \<times> jsnum list" where
  "extrema_of arc =
     foldl (loop_body arc)
       ([pt_x (arc_start arc), pt_x (arc_end arc)], [pt_y (arc_start arc), pt_y (arc_end arc)])
       offsets"

section \<open>The input domain and the arcs of the examples\<close>

text \<open>
  The documented domain of an arc: finite coordinates, finite rotation, finite radii that
  are not negative.  \<open>finite_arc\<close> is the part of it that the theorems below need.
\<close>

definition finite_arc :: "Arc \<Rightarrow> bool" where
  "finite_arc arc =
     (is_fin (pt_x (arc_start arc)) \<and> is_fin (pt_y (arc_start arc)) \<and>
      is_fin (pt_x (arc_end arc)) \<and> is_fin (pt_y (arc_end arc)) \<and>
      is_fin (arc_rx arc) \<and> is_fin (arc_ry arc) \<and> is_fin (arc_rotation arc))"

definition valid_arc :: "Arc \<Rightarrow> bool" where
  "valid_arc arc = (finite_arc arc \<and> 0 \<le> val (arc_rx arc) \<and> 0 \<le> val (arc_ry arc))"

text \<open>The conditions of the early returns, as the source tests them with \<^verbatim>\<open>==\<close>.\<close>

definition zero_radius :: "Arc \<Rightarrow> bool" where
  "zero_radius arc = (js_eq (arc_rx arc) (Fin 0) \<or> js_eq (arc_ry arc) (Fin 0))"

definition same_ends :: "Arc \<Rightarrow> bool" where
  "same_ends arc =
     (js_eq (pt_x (arc_start arc)) (pt_x (arc_end arc)) \<and>
      js_eq (pt_y (arc_start arc)) (pt_y (arc_end arc)))"

text \<open>A number that is finite and within \<open>eps\<close> of the real \<open>r\<close>.\<close>

definition within_tol :: "real \<Rightarrow> jsnum \<Rightarrow> real \<Rightarrow> bool" where
  "within_tol eps a r = (is_fin a \<and> \<bar>val a - r\<bar> \<le> eps)"

definition mk_arc :: "real \<Rightarrow> real \<Rightarrow> real \<Rightarrow> real \<Rightarrow> real \<Rightarrow> real \<Rightarrow> real \<Rightarrow> bool \<Rightarrow> bool \<Rightarrow> Arc" where
  "mk_arc x1 y1 x2 y2 rx ry rotation largeArc sweep =
     \<lparr>arc_start = \<lparr>pt_x = Fin x1, pt_y = Fin y1\<rparr>,
      arc_end = \<lparr>pt_x = Fin x2, pt_y = Fin y2\<rparr>,
      arc_rx = Fin rx, arc_ry = Fin ry, arc_rotation = Fin rotation,
      arc_largeArc = largeArc, arc_sweep = sweep\<rparr>"

text \<open>
  The arc of the two concrete scenarios: from \<open>(-1, 0)\<close> to \<open>(0, -1)\<close> with radii \<open>1\<close>, no
  rotation and both flags false.
\<close>

definition scenario_arc :: Arc where
  "scenario_arc = mk_arc (- 1) 0 0 (- 1) 1 1 0 False False"

text \<open>An arc with radii \<open>1\<close> whose start and end are the same point \<open>(-1, 0)\<close>.\<close>

definition coincident_arc :: Arc where
  "coincident_arc = mk_arc (- 1) 0 (- 1) 0 1 1 0 False False"





section \<open>Arithmetic on finite numbers\<close>

text \<open>
  On finite operands the operations are those of the reals, as long as no divisor is zero,
  no square root is taken of a negative number and no arc cosine outside \<open>[-1, 1]\<close>.
\<close>

lemma is_fin_not_NaN [simp]: "is_fin a \<Longrightarrow> a \<noteq> NaN"
  by (cases a) simp_all

lemma is_fin_not_inf [simp]: "is_fin a \<Longrightarrow> \<not> is_inf a"
  by (cases a) simp_all

lemma is_fin_zero_of [simp]: "is_fin (zero_of s)" and val_zero_of [simp]: "val (zero_of s) = 0"
  by (simp_all add: zero_of_def)

lemma is_fin_fin_of [simp]: "is_fin (fin_of s r)" and val_fin_of [simp]: "val (fin_of s r) = r"
  by (simp_all add: fin_of_def)

lemma js_neg_fin [simp]: "is_fin a \<Longrightarrow> is_fin (js_neg a)"
  and js_neg_val [simp]: "is_fin a \<Longrightarrow> val (js_neg a) = - val a"
  by (cases a; simp)+

lemma Math_abs_fin [simp]: "is_fin a \<Longrightarrow> is_fin (Math_abs a)"
  and Math_abs_val [simp]: "is_fin a \<Longrightarrow> val (Math_abs a) = \<bar>val a\<bar>"
  by (cases a; simp)+

lemma js_add_fin [simp]: "is_fin a \<Longrightarrow> is_fin b \<Longrightarrow> is_fin (js_add a b)"
  and js_add_val [simp]: "is_fin a \<Longrightarrow> is_fin b \<Longrightarrow> val (js_add a b) = val a + val b"
  by (cases a; cases b; simp add: js_add_def)+

lemma js_sub_fin [simp]: "is_fin a \<Longrightarrow> is_fin b \<Longrightarrow> is_fin (js_sub a b)"
  and js_sub_val [simp]: "is_fin a \<Longrightarrow> is_fin b \<Longrightarrow> val (js_sub a b) = val a - val b"
  by (simp_all add: js_sub_def)

lemma js_mul_fin [simp]: "is_fin a \<Longrightarrow> is_fin b \<Longrightarrow> is_fin (js_mul a b)"
  and js_mul_val [simp]: "is_fin a \<Longrightarrow> is_fin b \<Longrightarrow> val (js_mul a b) = val a * val b"
  by (simp_all add: js_mul_def)

lemma js_div_fin [simp]: "is_fin a \<Longrightarrow> is_fin b \<Longrightarrow> val b \<noteq> 0 \<Longrightarrow> is_fin (js_div a b)"
  and js_div_val [simp]:
    "is_fin a \<Longrightarrow> is_fin b \<Longrightarrow> val b \<noteq> 0 \<Longrightarrow> val (js_div a b) = val a / val b"
  by (simp_all add: js_div_def is_zero_def)

lemma js_rem_fin [simp]: "is_fin a \<Longrightarrow> is_fin b \<Longrightarrow> val b \<noteq> 0 \<Longrightarrow> is_fin (js_rem a b)"
  by (simp add: js_rem_def is_zero_def)

lemma Math_sqrt_fin [simp]: "is_fin a \<Longrightarrow> 0 \<le> val a \<Longrightarrow> is_fin (Math_sqrt a)"
  and Math_sqrt_val [simp]: "is_fin a \<Longrightarrow> 0 \<le> val a \<Longrightarrow> val (Math_sqrt a) = sqrt (val a)"
  by (cases a; simp)+

lemma Math_sin_fin [simp]: "is_fin a \<Longrightarrow> is_fin (Math_sin a)"
  and Math_sin_val [simp]: "is_fin a \<Longrightarrow> val (Math_sin a) = sin (val a)"
  by (cases a; simp)+

lemma Math_cos_fin [simp]: "is_fin a \<Longrightarrow> is_fin (Math_cos a)"
  and Math_cos_val [simp]: "is_fin a \<Longrightarrow> val (Math_cos a) = cos (val a)"
  by (cases a; simp)+

lemma Math_acos_fin [simp]:
    "is_fin a \<Longrightarrow> - 1 \<le> val a \<Longrightarrow> val a \<le> 1 \<Longrightarrow> is_fin (Math_acos a)"
  and Math_acos_val [simp]:
    "is_fin a \<Longrightarrow> - 1 \<le> val a \<Longrightarrow> val a \<le> 1 \<Longrightarrow> val (Math_acos a) = arccos (val a)"
  by (cases a; simp)+


lemma js_lt_fin [simp]: "is_fin a \<Longrightarrow> is_fin b \<Longrightarrow> js_lt a b = (val a < val b)"
  by (cases a; cases b; simp add: js_lt_def)

lemma js_gt_fin [simp]: "is_fin a \<Longrightarrow> is_fin b \<Longrightarrow> js_gt a b = (val b < val a)"
  by (simp add: js_gt_def)

lemma js_eq_fin [simp]: "is_fin a \<Longrightarrow> is_fin b \<Longrightarrow> js_eq a b = (val a = val b)"
  by (cases a; cases b; simp add: js_eq_def)

lemma js_max2_fin [simp]: "is_fin a \<Longrightarrow> is_fin b \<Longrightarrow> is_fin (js_max2 a b)"
  and js_max2_val [simp]: "is_fin a \<Longrightarrow> is_fin b \<Longrightarrow> val (js_max2 a b) = max (val a) (val b)"
  by (cases a; cases b; simp add: js_max2_def)+

lemma js_min2_fin [simp]: "is_fin a \<Longrightarrow> is_fin b \<Longrightarrow> is_fin (js_min2 a b)"
  and js_min2_val [simp]: "is_fin a \<Longrightarrow> is_fin b \<Longrightarrow> val (js_min2 a b) = min (val a) (val b)"
  by (cases a; cases b; simp add: js_min2_def)+

lemma Math_PI_fin [simp]: "is_fin Math_PI" and Math_PI_val [simp]: "val Math_PI = pi"
  by (simp_all add: Math_PI_def)

section \<open>The functions in terms of their intermediate values\<close>

text \<open>
  Unfolding the local bindings of \<^verbatim>\<open>convertArcParams\<close> and \<^verbatim>\<open>arcBound\<close> gives the values
  defined above, component by component.
\<close>

lemmas q_defs = phi_of_def sinPhi_of_def cosPhi_of_def dx2_of_def dy2_of_def x1p_of_def y1p_of_def
  x1p2_of_def y1p2_of_def sqrtLambda_of_def rx_of_def ry_of_def rx2_of_def ry2_of_def cFactorA_of_def
  cFactor_of_def cxp_of_def cyp_of_def cx_of_def cy_of_def vec1_of_def vec2_of_def theta1_of_def
  dtheta0_of_def dtheta_of_def

lemma convertArcParams_unfold:
  "convertArcParams arc =
     (if js_eq (arc_rx arc) (Fin 0) \<or> js_eq (arc_ry arc) (Fin 0) then
        \<lparr>alt_phi = phi_of arc, alt_rx = arc_rx arc, alt_ry = arc_ry arc,
         alt_cx = js_div (js_add (pt_x (arc_start arc)) (pt_x (arc_end arc))) (Fin 2),
         alt_cy = js_div (js_add (pt_y (arc_start arc)) (pt_y (arc_end arc))) (Fin 2),
         alt_theta1 = Fin 0, alt_dtheta = Math_PI\<rparr>
      else
        \<lparr>alt_phi = phi_of arc, alt_rx = rx_of arc, alt_ry = ry_of arc,
         alt_cx = cx_of arc, alt_cy = cy_of arc,
         alt_theta1 = theta1_of arc, alt_dtheta = dtheta_of arc\<rparr>)"
  unfolding convertArcParams_def q_defs Let_def
  by (simp only: split_def fst_conv snd_conv if_distrib [of fst] if_distrib [of snd] cong: if_cong)

lemma arcBound_unfold:
  "arcBound arc =
     (if zero_radius arc \<or> same_ends arc then
        \<lparr>rect_left = Math_min [pt_x (arc_start arc), pt_x (arc_end arc)],
         rect_right = Math_max [pt_x (arc_start arc), pt_x (arc_end arc)],
         rect_top = Math_min [pt_y (arc_start arc), pt_y (arc_end arc)],
         rect_bottom = Math_max [pt_y (arc_start arc), pt_y (arc_end arc)]\<rparr>
      else
        \<lparr>rect_left = Math_min (fst (extrema_of arc)),
         rect_right = Math_max (fst (extrema_of arc)),
         rect_top = Math_min (snd (extrema_of arc)),
         rect_bottom = Math_max (snd (extrema_of arc))\<rparr>)"
proof -
  have body: "(\<lambda>(maybeExtremaXs, maybeExtremaYs) offset.
       (if js_gt (ratio_of arc (js_add (thetaExtremaX_of arc) offset)) (Fin 0)
           \<and> js_lt (ratio_of arc (js_add (thetaExtremaX_of arc) offset)) (Fin 1)
        then maybeExtremaXs @ [extremaX_at arc (js_add (thetaExtremaX_of arc) offset)]
        else maybeExtremaXs,
        if js_gt (ratio_of arc (js_add (thetaExtremaY_of arc) offset)) (Fin 0)
           \<and> js_lt (ratio_of arc (js_add (thetaExtremaY_of arc) offset)) (Fin 1)
        then maybeExtremaYs @ [extremaY_at arc (js_add (thetaExtremaY_of arc) offset)]
        else maybeExtremaYs)) = loop_body arc"
    by (intro ext) (simp add: loop_body_def split_def)
  show ?thesis
    unfolding arcBound_def Let_def zero_radius_def same_ends_def extrema_of_def offsets_def
      body [symmetric]
    unfolding ratio_of_def extremaX_at_def extremaY_at_def thetaExtremaX_of_def
      thetaExtremaY_of_def tanPhi_of_def
    by (simp only: split_def disj_assoc)
qed



section \<open>The arcs of the examples, evaluated\<close>

text \<open>
  The conversion of each example arc, one local variable after the other, by unfolding the
  arithmetic on its concrete numbers.
\<close>

lemmas js_ops = js_add_def js_sub_def js_mul_def js_div_def js_rem_def js_lt_def js_gt_def
  js_eq_def js_max2_def js_min2_def is_zero_def zero_of_def inf_of_def fin_of_def trunc_def
  Math_PI_def

lemma scenario_fields:
  "arc_start scenario_arc = \<lparr>pt_x = Fin (- 1), pt_y = Fin 0\<rparr>"
  "arc_end scenario_arc = \<lparr>pt_x = Fin 0, pt_y = Fin (- 1)\<rparr>"
  "arc_rx scenario_arc = Fin 1" "arc_ry scenario_arc = Fin 1"
  "arc_rotation scenario_arc = Fin 0"
  "arc_largeArc scenario_arc = False" "arc_sweep scenario_arc = False"
  by (simp_all add: scenario_arc_def mk_arc_def)

lemma scenario_phi: "phi_of scenario_arc = Fin 0"
  by (simp add: phi_of_def scenario_fields js_ops)

lemma scenario_x1p: "x1p_of scenario_arc = Fin (- (1 / 2))" "y1p_of scenario_arc = Fin (1 / 2)"
  "sinPhi_of scenario_arc = Fin 0" "cosPhi_of scenario_arc = Fin 1"
  by (simp_all add: x1p_of_def y1p_of_def sinPhi_of_def cosPhi_of_def dx2_of_def dy2_of_def
      scenario_phi scenario_fields js_ops)

lemma scenario_sqrtLambda: "sqrtLambda_of scenario_arc = Fin (sqrt (1 / 2))"
  by (simp add: sqrtLambda_of_def x1p2_of_def y1p2_of_def scenario_x1p scenario_fields js_ops)

lemma scenario_radii: "rx_of scenario_arc = Fin 1" "ry_of scenario_arc = Fin 1"
  by (simp_all add: rx_of_def ry_of_def scenario_sqrtLambda scenario_fields js_ops)

lemma scenario_cFactor: "cFactor_of scenario_arc = Fin (- 1)"
  by (simp add: cFactor_of_def cFactorA_of_def rx2_of_def ry2_of_def x1p2_of_def y1p2_of_def
      scenario_radii scenario_x1p scenario_fields js_ops)

lemma scenario_cp: "cxp_of scenario_arc = Fin (- (1 / 2))" "cyp_of scenario_arc = Fin (- (1 / 2))"
  by (simp_all add: cxp_of_def cyp_of_def scenario_cFactor scenario_radii scenario_x1p js_ops)

lemma scenario_c: "cx_of scenario_arc = Fin (- 1)" "cy_of scenario_arc = Fin (- 1)"
  by (simp_all add: cx_of_def cy_of_def scenario_cp scenario_x1p scenario_fields js_ops)

lemma scenario_vec: "vec1_of scenario_arc = \<lparr>vec_x = Fin 0, vec_y = Fin 1\<rparr>"
  "vec2_of scenario_arc = \<lparr>vec_x = Fin 1, vec_y = Fin 0\<rparr>"
  by (simp_all add: vec1_of_def vec2_of_def scenario_cp scenario_x1p scenario_radii js_ops)

lemma scenario_theta1: "theta1_of scenario_arc = Fin (pi / 2)"
  by (simp add: theta1_of_def scenario_vec angle_def norm_vec_def Let_def js_ops)

lemma scenario_dtheta0: "dtheta0_of scenario_arc = Fin (- (pi / 2))"
  by (simp add: dtheta0_of_def scenario_vec angle_def norm_vec_def Let_def js_ops)

lemma scenario_dtheta: "dtheta_of scenario_arc = Fin (- (pi / 2))"
  by (simp add: dtheta_of_def scenario_dtheta0 scenario_fields js_ops)

lemma scenario_convert:
  "convertArcParams scenario_arc =
     \<lparr>alt_phi = Fin 0, alt_rx = Fin 1, alt_ry = Fin 1, alt_cx = Fin (- 1), alt_cy = Fin (- 1),
      alt_theta1 = Fin (pi / 2), alt_dtheta = Fin (- (pi / 2))\<rparr>"
  by (simp add: convertArcParams_unfold scenario_phi scenario_radii scenario_c scenario_theta1
      scenario_dtheta scenario_fields js_eq_def)

lemma ratio_window:
  fixes t :: real
  shows "(0 < (t - pi / 2) / (- (pi / 2)) \<and> (t - pi / 2) / (- (pi / 2)) < 1)
         \<longleftrightarrow> (0 < t \<and> t < pi / 2)"
proof -
  have "(t - pi / 2) / (- (pi / 2)) = 1 - 2 * t / pi"
    by (simp add: field_simps)
  moreover have "0 < 1 - 2 * t / pi \<longleftrightarrow> t < pi / 2"
    using pi_gt_zero by (simp add: field_simps)
  moreover have "1 - 2 * t / pi < 1 \<longleftrightarrow> 0 < t"
    using pi_gt_zero by (simp add: field_simps zero_less_mult_iff)
  ultimately show ?thesis by auto
qed

lemma scenario_ratio:
  assumes "is_fin th"
  shows "(js_gt (ratio_of scenario_arc th) (Fin 0) \<and> js_lt (ratio_of scenario_arc th) (Fin 1))
         \<longleftrightarrow> (0 < val th \<and> val th < pi / 2)"
proof -
  have f: "is_fin (ratio_of scenario_arc th)"
    and v: "val (ratio_of scenario_arc th) = (val th - pi / 2) / (- (pi / 2))"
    using assms by (simp_all add: ratio_of_def scenario_convert)
  show ?thesis
    using f v ratio_window [of "val th"] by simp
qed

lemma scenario_thetaExtrema:
  "thetaExtremaX_of scenario_arc = NegZero" "thetaExtremaY_of scenario_arc = Fin (pi / 2)"
  by (simp_all add: thetaExtremaX_of_def thetaExtremaY_of_def tanPhi_of_def scenario_convert
      js_ops)

lemma scenario_loop_body:
  assumes "is_fin off" "val off \<le> - (pi / 2) \<or> val off = 0 \<or> pi / 2 \<le> val off"
  shows "loop_body scenario_arc acc off = acc"
proof -
  have x: "is_fin (js_add NegZero off)" "val (js_add NegZero off) = val off"
    using assms by simp_all
  have y: "is_fin (js_add (Fin (pi / 2)) off)"
    "val (js_add (Fin (pi / 2)) off) = pi / 2 + val off"
    using assms by simp_all
  have "\<not> (0 < val off \<and> val off < pi / 2)"
    using assms by auto
  moreover have "\<not> (0 < pi / 2 + val off \<and> pi / 2 + val off < pi / 2)"
    using assms pi_gt_zero by auto
  ultimately show ?thesis
    unfolding loop_body_def scenario_thetaExtrema
    by (simp only: scenario_ratio [OF x(1)] scenario_ratio [OF y(1)] x y if_False prod.collapse)
qed

lemma scenario_extrema:
  "extrema_of scenario_arc = ([Fin (- 1), Fin 0], [Fin 0, Fin (- 1)])"
proof -
  have "foldl (loop_body scenario_arc) acc offs = acc"
    if "\<forall>off \<in> set offs. is_fin off \<and>
          (val off \<le> - (pi / 2) \<or> val off = 0 \<or> pi / 2 \<le> val off)" for acc offs
    using that by (induction offs arbitrary: acc) (simp_all add: scenario_loop_body)
  moreover have "\<forall>off \<in> set offsets. is_fin off \<and>
      (val off \<le> - (pi / 2) \<or> val off = 0 \<or> pi / 2 \<le> val off)"
    using pi_gt_zero by (simp add: offsets_def)
  ultimately show ?thesis
    by (simp add: extrema_of_def scenario_fields)
qed

lemma coincident_fields:
  "arc_start coincident_arc = \<lparr>pt_x = Fin (- 1), pt_y = Fin 0\<rparr>"
  "arc_end coincident_arc = \<lparr>pt_x = Fin (- 1), pt_y = Fin 0\<rparr>"
  "arc_rx coincident_arc = Fin 1" "arc_ry coincident_arc = Fin 1"
  "arc_rotation coincident_arc = Fin 0"
  "arc_largeArc coincident_arc = False" "arc_sweep coincident_arc = False"
  by (simp_all add: coincident_arc_def mk_arc_def)

lemma coincident_valid: "valid_arc coincident_arc"
  by (simp add: valid_arc_def finite_arc_def coincident_fields)

lemma coincident_phi: "phi_of coincident_arc = Fin 0"
  by (simp add: phi_of_def coincident_fields js_ops)

lemma coincident_x1p: "x1p_of coincident_arc = Fin 0" "y1p_of coincident_arc = Fin 0"
  "sinPhi_of coincident_arc = Fin 0" "cosPhi_of coincident_arc = Fin 1"
  by (simp_all add: x1p_of_def y1p_of_def sinPhi_of_def cosPhi_of_def dx2_of_def dy2_of_def
      coincident_phi coincident_fields js_ops)

lemma coincident_sqrtLambda: "sqrtLambda_of coincident_arc = Fin 0"
  by (simp add: sqrtLambda_of_def x1p2_of_def y1p2_of_def coincident_x1p coincident_fields js_ops)

lemma coincident_radii: "rx_of coincident_arc = Fin 1" "ry_of coincident_arc = Fin 1"
  by (simp_all add: rx_of_def ry_of_def coincident_sqrtLambda coincident_fields js_ops)

text \<open>The quotient under the square root is \<open>1 / 0\<close>, and the root of \<open>Infinity\<close> times \<open>-1\<close>
  is \<open>-Infinity\<close>.\<close>

lemma coincident_cFactor: "cFactor_of coincident_arc = NInf"
  by (simp add: cFactor_of_def cFactorA_of_def rx2_of_def ry2_of_def x1p2_of_def y1p2_of_def
      coincident_radii coincident_x1p coincident_fields js_ops)

lemma coincident_cp: "cxp_of coincident_arc = NaN" "cyp_of coincident_arc = NaN"
  by (simp_all add: cxp_of_def cyp_of_def coincident_cFactor coincident_radii coincident_x1p
      js_ops)

lemma coincident_c: "cx_of coincident_arc = NaN" "cy_of coincident_arc = NaN"
  by (simp_all add: cx_of_def cy_of_def coincident_cp coincident_x1p coincident_fields js_ops)

lemma coincident_vec: "vec1_of coincident_arc = \<lparr>vec_x = NaN, vec_y = NaN\<rparr>"
  "vec2_of coincident_arc = \<lparr>vec_x = NaN, vec_y = NaN\<rparr>"
  by (simp_all add: vec1_of_def vec2_of_def coincident_cp coincident_x1p coincident_radii js_ops)

lemma coincident_theta1: "theta1_of coincident_arc = NaN"
  by (simp add: theta1_of_def coincident_vec angle_def norm_vec_def Let_def js_ops)

lemma coincident_dtheta0: "dtheta0_of coincident_arc = NaN"
  by (simp add: dtheta0_of_def coincident_vec angle_def norm_vec_def Let_def js_ops)

lemma coincident_dtheta: "dtheta_of coincident_arc = NaN"
  by (simp add: dtheta_of_def coincident_dtheta0 coincident_fields js_ops)

lemma coincident_convert:
  "convertArcParams coincident_arc =
     \<lparr>alt_phi = Fin 0, alt_rx = Fin 1, alt_ry = Fin 1, alt_cx = NaN, alt_cy = NaN,
      alt_theta1 = NaN, alt_dtheta = NaN\<rparr>"
  by (simp add: convertArcParams_unfold coincident_phi coincident_radii coincident_c
      coincident_theta1 coincident_dtheta coincident_fields js_eq_def)


lemma Math_min_pair:
  "is_fin a \<Longrightarrow> is_fin b \<Longrightarrow> is_fin (Math_min [a, b]) \<and> val (Math_min [a, b]) = min (val a) (val b)"
  by (cases a; cases b; simp add: Math_min_def js_min2_def js_lt_def)

lemma Math_max_pair:
  "is_fin a \<Longrightarrow> is_fin b \<Longrightarrow> is_fin (Math_max [a, b]) \<and> val (Math_max [a, b]) = max (val a) (val b)"
  by (cases a; cases b; simp add: Math_max_def js_max2_def js_lt_def)








section \<open>Finite arcs: the local frame\<close>

lemma finite_arc_fields:
  assumes "finite_arc arc"
  shows "is_fin (pt_x (arc_start arc))" "is_fin (pt_y (arc_start arc))"
    "is_fin (pt_x (arc_end arc))" "is_fin (pt_y (arc_end arc))"
    "is_fin (arc_rx arc)" "is_fin (arc_ry arc)" "is_fin (arc_rotation arc)"
  using assms by (simp_all add: finite_arc_def)

lemma phi_fin: "finite_arc arc \<Longrightarrow> is_fin (phi_of arc)"
  by (simp add: phi_of_def finite_arc_def)

lemma sinPhi_fin: "finite_arc arc \<Longrightarrow> is_fin (sinPhi_of arc)"
  and cosPhi_fin: "finite_arc arc \<Longrightarrow> is_fin (cosPhi_of arc)"
  by (simp_all add: sinPhi_of_def cosPhi_of_def phi_fin)

lemma sin_cos_Phi:
  "finite_arc arc \<Longrightarrow> (val (sinPhi_of arc))\<^sup>2 + (val (cosPhi_of arc))\<^sup>2 = 1"
  by (simp add: sinPhi_of_def cosPhi_of_def phi_fin)

lemma dx2_fin: "finite_arc arc \<Longrightarrow> is_fin (dx2_of arc)"
  and dy2_fin: "finite_arc arc \<Longrightarrow> is_fin (dy2_of arc)"
  and dx2_val: "finite_arc arc \<Longrightarrow>
      val (dx2_of arc) = (val (pt_x (arc_start arc)) - val (pt_x (arc_end arc))) / 2"
  and dy2_val: "finite_arc arc \<Longrightarrow>
      val (dy2_of arc) = (val (pt_y (arc_start arc)) - val (pt_y (arc_end arc))) / 2"
  by (simp_all add: dx2_of_def dy2_of_def finite_arc_def)

lemma x1p_fin: "finite_arc arc \<Longrightarrow> is_fin (x1p_of arc)"
  and y1p_fin: "finite_arc arc \<Longrightarrow> is_fin (y1p_of arc)"
  and x1p_val: "finite_arc arc \<Longrightarrow> val (x1p_of arc) =
      val (cosPhi_of arc) * val (dx2_of arc) + val (sinPhi_of arc) * val (dy2_of arc)"
  and y1p_val: "finite_arc arc \<Longrightarrow> val (y1p_of arc) =
      - val (sinPhi_of arc) * val (dx2_of arc) + val (cosPhi_of arc) * val (dy2_of arc)"
  by (simp_all add: x1p_of_def y1p_of_def sinPhi_fin cosPhi_fin dx2_fin dy2_fin)

lemma x1p2_fin: "finite_arc arc \<Longrightarrow> is_fin (x1p2_of arc)"
  and y1p2_fin: "finite_arc arc \<Longrightarrow> is_fin (y1p2_of arc)"
  and x1p2_val: "finite_arc arc \<Longrightarrow> val (x1p2_of arc) = (val (x1p_of arc))\<^sup>2"
  and y1p2_val: "finite_arc arc \<Longrightarrow> val (y1p2_of arc) = (val (y1p_of arc))\<^sup>2"
  by (simp_all add: x1p2_of_def y1p2_of_def x1p_fin y1p_fin power2_eq_square)

text \<open>The rotation into the local frame keeps the length of the half difference.\<close>

lemma rotation_keeps_length:
  fixes c s dx dy :: real
  assumes "s\<^sup>2 + c\<^sup>2 = 1"
  shows "(c * dx + s * dy)\<^sup>2 + (- s * dx + c * dy)\<^sup>2 = dx\<^sup>2 + dy\<^sup>2"
proof -
  have "(c * dx + s * dy)\<^sup>2 + (- s * dx + c * dy)\<^sup>2 = (s\<^sup>2 + c\<^sup>2) * (dx\<^sup>2 + dy\<^sup>2)"
    by (simp add: power2_eq_square algebra_simps)
  then show ?thesis using assms by simp
qed

lemma local_frame_length:
  assumes "finite_arc arc"
  shows "(val (x1p_of arc))\<^sup>2 + (val (y1p_of arc))\<^sup>2 = (val (dx2_of arc))\<^sup>2 + (val (dy2_of arc))\<^sup>2"
  unfolding x1p_val [OF assms] y1p_val [OF assms]
  by (rule rotation_keeps_length [OF sin_cos_Phi [OF assms]])

lemma same_ends_iff:
  assumes "finite_arc arc"
  shows "same_ends arc \<longleftrightarrow> val (x1p_of arc) = 0 \<and> val (y1p_of arc) = 0"
proof -
  have "same_ends arc \<longleftrightarrow> val (dx2_of arc) = 0 \<and> val (dy2_of arc) = 0"
    using assms by (simp add: same_ends_def dx2_val dy2_val finite_arc_def)
  also have "\<dots> \<longleftrightarrow> (val (dx2_of arc))\<^sup>2 + (val (dy2_of arc))\<^sup>2 = 0"
    by (simp add: sum_power2_eq_zero_iff)
  also have "\<dots> \<longleftrightarrow> (val (x1p_of arc))\<^sup>2 + (val (y1p_of arc))\<^sup>2 = 0"
    by (simp add: local_frame_length [OF assms])
  also have "\<dots> \<longleftrightarrow> val (x1p_of arc) = 0 \<and> val (y1p_of arc) = 0"
    by (simp add: sum_power2_eq_zero_iff)
  finally show ?thesis .
qed

section \<open>Finite arcs with nonzero radii: the correction of the radii\<close>

lemma radii_nonzero:
  assumes "finite_arc arc" "\<not> zero_radius arc"
  shows "val (arc_rx arc) \<noteq> 0" "val (arc_ry arc) \<noteq> 0"
  using assms by (simp_all add: zero_radius_def finite_arc_def)

lemma Lambda_nonneg: "0 \<le> Lambda_of arc"
  by (simp add: Lambda_of_def)

lemma sqrtLambda_fin:
  assumes "finite_arc arc" "\<not> zero_radius arc"
  shows "is_fin (sqrtLambda_of arc)" "val (sqrtLambda_of arc) = sqrt (Lambda_of arc)"
proof -
  let ?q = "js_add (js_div (x1p2_of arc) (js_mul (Math_abs (arc_rx arc)) (Math_abs (arc_rx arc))))
     (js_div (y1p2_of arc) (js_mul (Math_abs (arc_ry arc)) (Math_abs (arc_ry arc))))"
  note nz = radii_nonzero [OF assms]
  note f = finite_arc_fields [OF assms(1)]
  have qf: "is_fin ?q"
    using nz f by (simp add: x1p2_fin y1p2_fin assms(1))
  have qv: "val ?q = Lambda_of arc"
    using nz f by (simp add: x1p2_fin y1p2_fin x1p2_val y1p2_val assms(1) Lambda_of_def
        power2_eq_square)
  show "is_fin (sqrtLambda_of arc)"
    unfolding sqrtLambda_of_def using qf qv Lambda_nonneg [of arc] by simp
  show "val (sqrtLambda_of arc) = sqrt (Lambda_of arc)"
    unfolding sqrtLambda_of_def using qf qv Lambda_nonneg [of arc] by simp
qed


lemma rx_of_fin:
  assumes "finite_arc arc" "\<not> zero_radius arc"
  shows "is_fin (rx_of arc)" "is_fin (ry_of arc)"
  using sqrtLambda_fin [OF assms] finite_arc_fields [OF assms(1)]
  by (simp_all add: rx_of_def ry_of_def)

lemma rx_of_val:
  assumes "finite_arc arc" "\<not> zero_radius arc"
  shows "val (rx_of arc) =
      (if 1 < Lambda_of arc then sqrt (Lambda_of arc) * \<bar>val (arc_rx arc)\<bar> else \<bar>val (arc_rx arc)\<bar>)"
    "val (ry_of arc) =
      (if 1 < Lambda_of arc then sqrt (Lambda_of arc) * \<bar>val (arc_ry arc)\<bar> else \<bar>val (arc_ry arc)\<bar>)"
  using sqrtLambda_fin [OF assms] finite_arc_fields [OF assms(1)]
  by (simp_all add: rx_of_def ry_of_def)

lemma rx_of_ge:
  assumes "finite_arc arc" "\<not> zero_radius arc"
  shows "\<bar>val (arc_rx arc)\<bar> \<le> val (rx_of arc)" "\<bar>val (arc_ry arc)\<bar> \<le> val (ry_of arc)"
proof -
  have "1 \<le> sqrt (Lambda_of arc)" if "1 < Lambda_of arc"
    using that by simp
  then have "\<bar>r\<bar> \<le> sqrt (Lambda_of arc) * \<bar>r\<bar>" if "1 < Lambda_of arc" for r :: real
    using that mult_right_mono [of 1 "sqrt (Lambda_of arc)" "\<bar>r\<bar>"] by simp
  then show "\<bar>val (arc_rx arc)\<bar> \<le> val (rx_of arc)" "\<bar>val (arc_ry arc)\<bar> \<le> val (ry_of arc)"
    by (simp_all add: rx_of_val [OF assms])
qed

lemma rx_of_pos:
  assumes "finite_arc arc" "\<not> zero_radius arc"
  shows "0 < val (rx_of arc)" "0 < val (ry_of arc)"
  using rx_of_ge [OF assms] radii_nonzero [OF assms] by linarith+

text \<open>
  After the correction the sum \<open>x1p\<^sup>2 / rx\<^sup>2 + y1p\<^sup>2 / ry\<^sup>2\<close> is at most one, and it is
  one when the radii were too small.
\<close>

lemma scaled_radii_sum:
  fixes a b r s L :: real
  assumes "r \<noteq> 0" "s \<noteq> 0" "L = a\<^sup>2 / r\<^sup>2 + b\<^sup>2 / s\<^sup>2" "1 < L"
  shows "a\<^sup>2 / (sqrt L * \<bar>r\<bar>)\<^sup>2 + b\<^sup>2 / (sqrt L * \<bar>s\<bar>)\<^sup>2 = 1"
proof -
  have L: "0 < L" using assms(4) by simp
  have "(sqrt L * \<bar>r\<bar>)\<^sup>2 = L * r\<^sup>2" "(sqrt L * \<bar>s\<bar>)\<^sup>2 = L * s\<^sup>2"
    using L by (simp_all add: power_mult_distrib)
  then have "a\<^sup>2 / (sqrt L * \<bar>r\<bar>)\<^sup>2 + b\<^sup>2 / (sqrt L * \<bar>s\<bar>)\<^sup>2
      = (a\<^sup>2 / r\<^sup>2 + b\<^sup>2 / s\<^sup>2) / L"
    by (simp add: add_divide_distrib mult.commute)
  also have "\<dots> = 1" using L assms(3) by simp
  finally show ?thesis .
qed

lemma mu_too_small:
  assumes "finite_arc arc" "\<not> zero_radius arc" "1 < Lambda_of arc"
  shows "mu_of arc = 1"
  unfolding mu_of_def using assms(3) radii_nonzero [OF assms(1,2)]
  by (simp add: rx_of_val [OF assms(1,2)] scaled_radii_sum [OF _ _ Lambda_of_def])

lemma mu_large_enough:
  assumes "finite_arc arc" "\<not> zero_radius arc" "\<not> 1 < Lambda_of arc"
  shows "mu_of arc = Lambda_of arc"
  unfolding mu_of_def Lambda_of_def using assms(3)
  by (simp add: rx_of_val [OF assms(1,2)])

lemma mu_le_1:
  assumes "finite_arc arc" "\<not> zero_radius arc"
  shows "mu_of arc \<le> 1"
  using mu_too_small [OF assms] mu_large_enough [OF assms] by (cases "1 < Lambda_of arc") simp_all

lemma mu_pos:
  assumes "finite_arc arc" "\<not> zero_radius arc" "\<not> same_ends arc"
  shows "0 < mu_of arc"
proof -
  note p = rx_of_pos [OF assms(1,2)]
  have nz: "val (x1p_of arc) \<noteq> 0 \<or> val (y1p_of arc) \<noteq> 0"
    using assms(3) same_ends_iff [OF assms(1)] by simp
  have "0 \<le> (val (x1p_of arc))\<^sup>2 / (val (rx_of arc))\<^sup>2"
    "0 \<le> (val (y1p_of arc))\<^sup>2 / (val (ry_of arc))\<^sup>2"
    by simp_all
  moreover have "0 < (val (x1p_of arc))\<^sup>2 / (val (rx_of arc))\<^sup>2
      \<or> 0 < (val (y1p_of arc))\<^sup>2 / (val (ry_of arc))\<^sup>2"
    using nz p by (auto simp add: zero_less_divide_iff)
  ultimately show ?thesis
    unfolding mu_of_def by linarith
qed

section \<open>The center\<close>

lemma rx2_fin:
  assumes "finite_arc arc" "\<not> zero_radius arc"
  shows "is_fin (rx2_of arc)" "is_fin (ry2_of arc)"
    "val (rx2_of arc) = (val (rx_of arc))\<^sup>2" "val (ry2_of arc) = (val (ry_of arc))\<^sup>2"
  using rx_of_fin [OF assms] by (simp_all add: rx2_of_def ry2_of_def power2_eq_square)

text \<open>The radicand and the divisor of \<^verbatim>\<open>cFactor\<close> in terms of \<open>mu_of\<close>.\<close>

lemma radicand_eq:
  fixes a b R S :: real
  assumes "0 < R" "0 < S"
  shows "R\<^sup>2 * S\<^sup>2 - R\<^sup>2 * b\<^sup>2 - S\<^sup>2 * a\<^sup>2 = R\<^sup>2 * S\<^sup>2 * (1 - (a\<^sup>2 / R\<^sup>2 + b\<^sup>2 / S\<^sup>2))"
    "R\<^sup>2 * b\<^sup>2 + S\<^sup>2 * a\<^sup>2 = R\<^sup>2 * S\<^sup>2 * (a\<^sup>2 / R\<^sup>2 + b\<^sup>2 / S\<^sup>2)"
  using assms by (simp_all add: field_simps)

lemma cFactorA_fin:
  assumes "finite_arc arc" "\<not> zero_radius arc"
  shows "is_fin (cFactorA_of arc)"
    "val (cFactorA_of arc) = (val (rx_of arc))\<^sup>2 * (val (ry_of arc))\<^sup>2 * (1 - mu_of arc)"
proof -
  note f = rx2_fin [OF assms] x1p2_fin [OF assms(1)] y1p2_fin [OF assms(1)]
    x1p2_val [OF assms(1)] y1p2_val [OF assms(1)]
  note p = rx_of_pos [OF assms]
  show "is_fin (cFactorA_of arc)"
    by (simp add: cFactorA_of_def f)
  have "val (cFactorA_of arc) =
      max 0 ((val (rx_of arc))\<^sup>2 * (val (ry_of arc))\<^sup>2 * (1 - mu_of arc))"
    unfolding mu_of_def radicand_eq(1) [OF p, symmetric]
    by (simp add: cFactorA_of_def f)
  moreover have "0 \<le> (val (rx_of arc))\<^sup>2 * (val (ry_of arc))\<^sup>2 * (1 - mu_of arc)"
    using mu_le_1 [OF assms] by simp
  ultimately show "val (cFactorA_of arc) =
      (val (rx_of arc))\<^sup>2 * (val (ry_of arc))\<^sup>2 * (1 - mu_of arc)"
    by simp
qed

lemma cFactor_fin:
  assumes "finite_arc arc" "\<not> zero_radius arc" "\<not> same_ends arc"
  shows "is_fin (cFactor_of arc)" "(val (cFactor_of arc))\<^sup>2 = (1 - mu_of arc) / mu_of arc"
proof -
  let ?d = "js_add (js_mul (rx2_of arc) (y1p2_of arc)) (js_mul (ry2_of arc) (x1p2_of arc))"
  let ?s = "if arc_largeArc arc = arc_sweep arc then Fin (- 1) else Fin 1"
  note f = rx2_fin [OF assms(1,2)] x1p2_fin [OF assms(1)] y1p2_fin [OF assms(1)]
    x1p2_val [OF assms(1)] y1p2_val [OF assms(1)]
  note p = rx_of_pos [OF assms(1,2)]
  note m = mu_pos [OF assms] mu_le_1 [OF assms(1,2)]
  have df: "is_fin ?d"
    by (simp add: f)
  have dv: "val ?d = (val (rx_of arc))\<^sup>2 * (val (ry_of arc))\<^sup>2 * mu_of arc"
    unfolding mu_of_def radicand_eq(2) [OF p, symmetric] by (simp add: f)
  have dnz: "val ?d \<noteq> 0"
    unfolding dv using p m by simp
  have qf: "is_fin (js_div (cFactorA_of arc) ?d)"
    using cFactorA_fin(1) [OF assms(1,2)] df dnz by simp
  have qv: "val (js_div (cFactorA_of arc) ?d) = (1 - mu_of arc) / mu_of arc"
    using cFactorA_fin [OF assms(1,2)] df dnz p by (simp add: dv)
  have q0: "0 \<le> (1 - mu_of arc) / mu_of arc"
    using m by simp
  have sf: "is_fin ?s" and sv: "(val ?s)\<^sup>2 = 1"
    by simp_all
  have rf: "is_fin (Math_sqrt (js_div (cFactorA_of arc) ?d))"
    and rv: "val (Math_sqrt (js_div (cFactorA_of arc) ?d)) = sqrt ((1 - mu_of arc) / mu_of arc)"
    using qf qv q0 by simp_all
  show "is_fin (cFactor_of arc)"
    unfolding cFactor_of_def using rf sf by (rule js_mul_fin)
  have "val (cFactor_of arc) = sqrt ((1 - mu_of arc) / mu_of arc) * val ?s"
    unfolding cFactor_of_def using rf sf rv by (simp only: js_mul_val)
  then have "(val (cFactor_of arc))\<^sup>2 = (sqrt ((1 - mu_of arc) / mu_of arc))\<^sup>2 * (val ?s)\<^sup>2"
    by (simp only: power_mult_distrib)
  then show "(val (cFactor_of arc))\<^sup>2 = (1 - mu_of arc) / mu_of arc"
    using q0 sv by simp
qed

lemma cxp_fin:
  assumes "finite_arc arc" "\<not> zero_radius arc" "\<not> same_ends arc"
  shows "is_fin (cxp_of arc)" "is_fin (cyp_of arc)"
    "val (cxp_of arc) = val (cFactor_of arc) * val (rx_of arc) * val (y1p_of arc) / val (ry_of arc)"
    "val (cyp_of arc) = - val (cFactor_of arc) * val (ry_of arc) * val (x1p_of arc) / val (rx_of arc)"
  using cFactor_fin(1) [OF assms] rx_of_fin [OF assms(1,2)] rx_of_pos [OF assms(1,2)]
    x1p_fin [OF assms(1)] y1p_fin [OF assms(1)]
  by (simp_all add: cxp_of_def cyp_of_def)

lemma cx_fin:
  assumes "finite_arc arc" "\<not> zero_radius arc" "\<not> same_ends arc"
  shows "is_fin (cx_of arc)" "is_fin (cy_of arc)"
  using cxp_fin(1,2) [OF assms] sinPhi_fin [OF assms(1)] cosPhi_fin [OF assms(1)]
    finite_arc_fields [OF assms(1)]
  by (simp_all add: cx_of_def cy_of_def)

section \<open>The two vectors from the center\<close>

lemma vec_fin:
  assumes "finite_arc arc" "\<not> zero_radius arc" "\<not> same_ends arc"
  shows "is_fin (vec_x (vec1_of arc))" "is_fin (vec_y (vec1_of arc))"
    "is_fin (vec_x (vec2_of arc))" "is_fin (vec_y (vec2_of arc))"
  using cxp_fin(1,2) [OF assms] rx_of_fin [OF assms(1,2)] rx_of_pos [OF assms(1,2)]
    x1p_fin [OF assms(1)] y1p_fin [OF assms(1)]
  by (simp_all add: vec1_of_def vec2_of_def)

lemma vec_val:
  assumes "finite_arc arc" "\<not> zero_radius arc" "\<not> same_ends arc"
  shows "val (vec_x (vec1_of arc)) =
      val (x1p_of arc) / val (rx_of arc) - val (cFactor_of arc) * (val (y1p_of arc) / val (ry_of arc))"
    "val (vec_y (vec1_of arc)) =
      val (y1p_of arc) / val (ry_of arc) + val (cFactor_of arc) * (val (x1p_of arc) / val (rx_of arc))"
    "val (vec_x (vec2_of arc)) =
      - (val (x1p_of arc) / val (rx_of arc)) - val (cFactor_of arc) * (val (y1p_of arc) / val (ry_of arc))"
    "val (vec_y (vec2_of arc)) =
      - (val (y1p_of arc) / val (ry_of arc)) + val (cFactor_of arc) * (val (x1p_of arc) / val (rx_of arc))"
proof -
  note c = cxp_fin [OF assms]
  note r = rx_of_fin [OF assms(1,2)]
  note p = rx_of_pos [OF assms(1,2)]
  note f = x1p_fin [OF assms(1)] y1p_fin [OF assms(1)]
  have x1: "val (vec_x (vec1_of arc)) = (val (x1p_of arc) - val (cxp_of arc)) / val (rx_of arc)"
    and y1: "val (vec_y (vec1_of arc)) = (val (y1p_of arc) - val (cyp_of arc)) / val (ry_of arc)"
    and x2: "val (vec_x (vec2_of arc)) = (- val (x1p_of arc) - val (cxp_of arc)) / val (rx_of arc)"
    and y2: "val (vec_y (vec2_of arc)) = (- val (y1p_of arc) - val (cyp_of arc)) / val (ry_of arc)"
    using c(1,2) r p f by (simp_all add: vec1_of_def vec2_of_def)
  show "val (vec_x (vec1_of arc)) =
      val (x1p_of arc) / val (rx_of arc) - val (cFactor_of arc) * (val (y1p_of arc) / val (ry_of arc))"
    unfolding x1 c(3) using p by (simp add: field_simps)
  show "val (vec_y (vec1_of arc)) =
      val (y1p_of arc) / val (ry_of arc) + val (cFactor_of arc) * (val (x1p_of arc) / val (rx_of arc))"
    unfolding y1 c(4) using p by (simp add: field_simps)
  show "val (vec_x (vec2_of arc)) =
      - (val (x1p_of arc) / val (rx_of arc)) - val (cFactor_of arc) * (val (y1p_of arc) / val (ry_of arc))"
    unfolding x2 c(3) using p by (simp add: field_simps)
  show "val (vec_y (vec2_of arc)) =
      - (val (y1p_of arc) / val (ry_of arc)) + val (cFactor_of arc) * (val (x1p_of arc) / val (rx_of arc))"
    unfolding y2 c(4) using p by (simp add: field_simps)
qed

text \<open>
  With \<open>p = x1p / rx\<close>, \<open>q = y1p / ry\<close> and \<open>f\<close> the value of \<^verbatim>\<open>cFactor\<close>: both vectors have
  length one, and their dot product is \<open>1 - 2 * (p\<^sup>2 + q\<^sup>2)\<close>.
\<close>

lemma center_vectors:
  fixes p q f m :: real
  assumes "p\<^sup>2 + q\<^sup>2 = m" "0 < m" "f\<^sup>2 = (1 - m) / m"
  shows "(p - f * q)\<^sup>2 + (q + f * p)\<^sup>2 = 1"
    "(- p - f * q)\<^sup>2 + (- q + f * p)\<^sup>2 = 1"
    "(p - f * q) * (- p - f * q) + (q + f * p) * (- q + f * p) = 1 - 2 * m"
proof -
  have fm: "f\<^sup>2 * m = 1 - m"
    using assms(2,3) by simp
  have "(p - f * q)\<^sup>2 + (q + f * p)\<^sup>2 = (p\<^sup>2 + q\<^sup>2) + f\<^sup>2 * (p\<^sup>2 + q\<^sup>2)"
    by (simp add: power2_eq_square algebra_simps)
  then show "(p - f * q)\<^sup>2 + (q + f * p)\<^sup>2 = 1"
    using fm assms(1) by simp
  have "(- p - f * q)\<^sup>2 + (- q + f * p)\<^sup>2 = (p\<^sup>2 + q\<^sup>2) + f\<^sup>2 * (p\<^sup>2 + q\<^sup>2)"
    by (simp add: power2_eq_square algebra_simps)
  then show "(- p - f * q)\<^sup>2 + (- q + f * p)\<^sup>2 = 1"
    using fm assms(1) by simp
  have "(p - f * q) * (- p - f * q) + (q + f * p) * (- q + f * p)
      = f\<^sup>2 * (p\<^sup>2 + q\<^sup>2) - (p\<^sup>2 + q\<^sup>2)"
    by (simp add: power2_eq_square algebra_simps)
  then show "(p - f * q) * (- p - f * q) + (q + f * p) * (- q + f * p) = 1 - 2 * m"
    using fm assms(1) by simp
qed

lemma mu_as_squares:
  "(val (x1p_of arc) / val (rx_of arc))\<^sup>2 + (val (y1p_of arc) / val (ry_of arc))\<^sup>2 = mu_of arc"
  by (simp add: mu_of_def power_divide)

lemma vec_unit:
  assumes "finite_arc arc" "\<not> zero_radius arc" "\<not> same_ends arc"
  shows "(val (vec_x (vec1_of arc)))\<^sup>2 + (val (vec_y (vec1_of arc)))\<^sup>2 = 1"
    "(val (vec_x (vec2_of arc)))\<^sup>2 + (val (vec_y (vec2_of arc)))\<^sup>2 = 1"
    "val (vec_x (vec1_of arc)) * val (vec_x (vec2_of arc))
      + val (vec_y (vec1_of arc)) * val (vec_y (vec2_of arc)) = 1 - 2 * mu_of arc"
  unfolding vec_val [OF assms]
  by (rule center_vectors [OF mu_as_squares mu_pos [OF assms] cFactor_fin(2) [OF assms]])+

section \<open>The angle between two vectors of length one\<close>

lemma unit_dot_bounds:
  fixes ux uy vx vy :: real
  assumes "ux\<^sup>2 + uy\<^sup>2 = 1" "vx\<^sup>2 + vy\<^sup>2 = 1"
  shows "- 1 \<le> ux * vx + uy * vy" "ux * vx + uy * vy \<le> 1"
proof -
  have "0 \<le> (ux + vx)\<^sup>2 + (uy + vy)\<^sup>2" "0 \<le> (ux - vx)\<^sup>2 + (uy - vy)\<^sup>2"
    by simp_all
  then have "0 \<le> (ux\<^sup>2 + uy\<^sup>2) + (vx\<^sup>2 + vy\<^sup>2) + 2 * (ux * vx + uy * vy)"
    "0 \<le> (ux\<^sup>2 + uy\<^sup>2) + (vx\<^sup>2 + vy\<^sup>2) - 2 * (ux * vx + uy * vy)"
    by (simp_all add: power2_sum power2_diff algebra_simps)
  then show "- 1 \<le> ux * vx + uy * vy" "ux * vx + uy * vy \<le> 1"
    using assms by simp_all
qed

lemma norm_vec_unit:
  assumes "is_fin (vec_x u)" "is_fin (vec_y u)" "(val (vec_x u))\<^sup>2 + (val (vec_y u))\<^sup>2 = 1"
  shows "is_fin (norm_vec u)" "val (norm_vec u) = 1"
  using assms by (simp_all add: norm_vec_def power2_eq_square)

lemma angle_unit:
  assumes "is_fin (vec_x u)" "is_fin (vec_y u)" "(val (vec_x u))\<^sup>2 + (val (vec_y u))\<^sup>2 = 1"
    and "is_fin (vec_x v)" "is_fin (vec_y v)" "(val (vec_x v))\<^sup>2 + (val (vec_y v))\<^sup>2 = 1"
  shows "is_fin (angle u v)"
    "val (angle u v) =
      (if val (vec_x u) * val (vec_y v) - val (vec_y u) * val (vec_x v) < 0 then - 1 else 1)
      * arccos (val (vec_x u) * val (vec_x v) + val (vec_y u) * val (vec_y v))"
proof -
  let ?dot = "val (vec_x u) * val (vec_x v) + val (vec_y u) * val (vec_y v)"
  let ?q = "js_div (js_add (js_mul (vec_x u) (vec_x v)) (js_mul (vec_y u) (vec_y v)))
     (js_mul (norm_vec u) (norm_vec v))"
  let ?s = "if js_lt (js_sub (js_mul (vec_x u) (vec_y v)) (js_mul (vec_y u) (vec_x v))) (Fin 0)
     then Fin (- 1) else Fin 1"
  note nu = norm_vec_unit [OF assms(1-3)]
  note nv = norm_vec_unit [OF assms(4-6)]
  note b = unit_dot_bounds [OF assms(3) assms(6)]
  have qf: "is_fin ?q" and qv: "val ?q = ?dot"
    using assms(1,2,4,5) nu nv by simp_all
  have af: "is_fin (Math_acos ?q)" and av: "val (Math_acos ?q) = arccos ?dot"
    using qf qv b by simp_all
  have sf: "is_fin ?s"
    by simp
  have sv: "val ?s =
      (if val (vec_x u) * val (vec_y v) - val (vec_y u) * val (vec_x v) < 0 then - 1 else 1)"
    using assms(1,2,4,5) by simp
  have e: "angle u v = js_mul ?s (Math_acos ?q)"
    by (simp add: angle_def Let_def)
  show "is_fin (angle u v)"
    unfolding e using sf af by (rule js_mul_fin)
  show "val (angle u v) =
      (if val (vec_x u) * val (vec_y v) - val (vec_y u) * val (vec_x v) < 0 then - 1 else 1)
      * arccos ?dot"
    unfolding e using sf af sv av by (simp only: js_mul_val)
qed

section \<open>The two angles returned\<close>

lemma theta1_fin:
  assumes "finite_arc arc" "\<not> zero_radius arc" "\<not> same_ends arc"
  shows "is_fin (theta1_of arc)"
  unfolding theta1_of_def
  by (rule angle_unit(1)) (simp_all add: vec_fin [OF assms] vec_unit [OF assms])

lemma dtheta0_fin:
  assumes "finite_arc arc" "\<not> zero_radius arc" "\<not> same_ends arc"
  shows "is_fin (dtheta0_of arc)"
    "val (dtheta0_of arc) \<noteq> 0" "- pi \<le> val (dtheta0_of arc)" "val (dtheta0_of arc) \<le> pi"
proof -
  note f = vec_fin [OF assms]
  note u = vec_unit [OF assms]
  note m = mu_pos [OF assms] mu_le_1 [OF assms(1,2)]
  let ?a = "arccos (1 - 2 * mu_of arc)"
  have a: "0 < ?a" "?a \<le> pi"
    using m arccos_less_arccos [of "1 - 2 * mu_of arc" 1] arccos_ubound [of "1 - 2 * mu_of arc"]
    by simp_all
  show "is_fin (dtheta0_of arc)"
    unfolding dtheta0_of_def by (rule angle_unit(1) [OF f(1,2) u(1) f(3,4) u(2)])
  have v: "val (dtheta0_of arc) = ?a \<or> val (dtheta0_of arc) = - ?a"
    unfolding dtheta0_of_def angle_unit(2) [OF f(1,2) u(1) f(3,4) u(2)] u(3) by simp
  show "val (dtheta0_of arc) \<noteq> 0" "- pi \<le> val (dtheta0_of arc)" "val (dtheta0_of arc) \<le> pi"
    using v a by auto
qed

lemma dtheta_fin:
  assumes "finite_arc arc" "\<not> zero_radius arc" "\<not> same_ends arc"
  shows "is_fin (dtheta_of arc)"
    "arc_sweep arc \<Longrightarrow> 0 < val (dtheta_of arc) \<and> val (dtheta_of arc) < 2 * pi"
    "\<not> arc_sweep arc \<Longrightarrow> - (2 * pi) < val (dtheta_of arc) \<and> val (dtheta_of arc) < 0"
proof -
  note d = dtheta0_fin [OF assms]
  show "is_fin (dtheta_of arc)"
    using d(1) by (simp add: dtheta_of_def)
  show "0 < val (dtheta_of arc) \<and> val (dtheta_of arc) < 2 * pi" if "arc_sweep arc"
    using that d pi_gt_zero by (auto simp add: dtheta_of_def)
  show "- (2 * pi) < val (dtheta_of arc) \<and> val (dtheta_of arc) < 0" if "\<not> arc_sweep arc"
    using that d pi_gt_zero by (auto simp add: dtheta_of_def)
qed

section \<open>The loop of the bounding box\<close>

lemma NaN_propagates [simp]:
  "js_add NaN b = NaN" "js_sub NaN b = NaN" "js_div NaN b = NaN"
  "\<not> js_gt NaN b" "\<not> js_lt NaN b"
  by (simp_all add: js_add_def js_sub_def js_div_def js_gt_def js_lt_def)








section \<open>Minimum and maximum of finite numbers\<close>





section \<open>The values returned for a finite arc\<close>





text \<open>
  In exact arithmetic a finite arc has a finite center parameterization unless its radii are
  nonzero and its endpoints coincide.
\<close>

lemma convertArcParams_finite:
  assumes "finite_arc arc" "zero_radius arc \<or> \<not> same_ends arc"
  shows "is_fin (alt_phi (convertArcParams arc))"
    "is_fin (alt_rx (convertArcParams arc))" "is_fin (alt_ry (convertArcParams arc))"
    "is_fin (alt_cx (convertArcParams arc))" "is_fin (alt_cy (convertArcParams arc))"
    "is_fin (alt_theta1 (convertArcParams arc))" "is_fin (alt_dtheta (convertArcParams arc))"
proof -
  note c = finite_arc_fields [OF assms(1)]
  show "is_fin (alt_phi (convertArcParams arc))"
    by (simp add: convertArcParams_unfold phi_fin [OF assms(1)])
  show "is_fin (alt_rx (convertArcParams arc))" "is_fin (alt_ry (convertArcParams arc))"
    using c rx_of_fin [OF assms(1)] by (simp_all add: convertArcParams_unfold zero_radius_def)
  show "is_fin (alt_cx (convertArcParams arc))" "is_fin (alt_cy (convertArcParams arc))"
    using c cx_fin [OF assms(1)] assms(2)
    by (auto simp add: convertArcParams_unfold zero_radius_def)
  show "is_fin (alt_theta1 (convertArcParams arc))"
    using theta1_fin [OF assms(1)] assms(2)
    by (auto simp add: convertArcParams_unfold zero_radius_def)
  show "is_fin (alt_dtheta (convertArcParams arc))"
    using dtheta_fin(1) [OF assms(1)] assms(2)
    by (auto simp add: convertArcParams_unfold zero_radius_def)
qed

section \<open>The claims\<close>

text \<open>
  The theorems of this section are about the model above: JavaScript numbers with exact
  arithmetic on finite values.  Where a claim speaks of a tolerance, the model meets the
  value exactly.
\<close>

subsection \<open>No NaN in the result\<close>

text \<open>
  Claim C1 says that \<^verbatim>\<open>convertArcParams\<close> and \<^verbatim>\<open>arcBound\<close> never return a NaN or infinite
  component on the documented domain, coincident start and end points included.
  \<^verbatim>\<open>convertArcParams\<close> has no branch for coincident endpoints (only \<^verbatim>\<open>arcBound\<close> has): with
  nonzero radii the divisor \<^verbatim>\<open>rx2 * y1p2 + ry2 * x1p2\<close> is zero, \<^verbatim>\<open>cFactor\<close> is infinite and
  \<^verbatim>\<open>cFactor * rx * y1p\<close> is \<open>Infinity * 0\<close>.  On the valid arc from \<open>(-1, 0)\<close> to \<open>(-1, 0)\<close>
  with radii \<open>1\<close> the center and the start angle returned are NaN.  (Lemma
  \<open>convertArcParams_finite\<close> shows that finite arcs with distinct endpoints or a zero
  radius have finite results.)
\<close>

theorem coincident_ends_give_NaN:
  "valid_arc coincident_arc \<and>
   alt_cx (convertArcParams coincident_arc) = NaN \<and>
   alt_cy (convertArcParams coincident_arc) = NaN \<and>
   alt_theta1 (convertArcParams coincident_arc) = NaN"
  by (simp add: coincident_convert coincident_valid)

subsection \<open>Concrete scenario A\<close>

text \<open>
  Claim C2.  For the arc from \<open>(-1, 0)\<close> to \<open>(0, -1)\<close> with \<open>rx = ry = 1\<close>, rotation \<open>0\<close> and
  both flags false, \<^verbatim>\<open>convertArcParams\<close> returns \<open>phi = 0\<close>, \<open>rx = 1\<close>, \<open>ry = 1\<close>, \<open>cx = -1\<close>,
  \<open>cy = -1\<close>, \<open>theta1 = pi / 2\<close> and \<open>dtheta = - pi / 2\<close>, each within the absolute tolerance
  \<open>10\<^sup>-\<^sup>9\<close>.  (The values are met exactly, see \<open>scenario_convert\<close>.)
\<close>

theorem scenario_convertArcParams:
  "within_tol (1 / 10 ^ 9) (alt_phi (convertArcParams scenario_arc)) 0 \<and>
   within_tol (1 / 10 ^ 9) (alt_rx (convertArcParams scenario_arc)) 1 \<and>
   within_tol (1 / 10 ^ 9) (alt_ry (convertArcParams scenario_arc)) 1 \<and>
   within_tol (1 / 10 ^ 9) (alt_cx (convertArcParams scenario_arc)) (- 1) \<and>
   within_tol (1 / 10 ^ 9) (alt_cy (convertArcParams scenario_arc)) (- 1) \<and>
   within_tol (1 / 10 ^ 9) (alt_theta1 (convertArcParams scenario_arc)) (pi / 2) \<and>
   within_tol (1 / 10 ^ 9) (alt_dtheta (convertArcParams scenario_arc)) (- (pi / 2))"
  by (simp add: scenario_convert within_tol_def)

subsection \<open>Zero radii\<close>



subsection \<open>The sweep flag and the sign of dtheta\<close>




subsection \<open>The correction of radii that are too small\<close>



subsection \<open>The degenerate bounding box\<close>

text \<open>
  Claim C6.  For every arc with \<open>rx = 0\<close>, or \<open>ry = 0\<close>, or start equal to end, \<^verbatim>\<open>arcBound\<close>
  returns exactly the bounding box of the two endpoints alone: \<open>left = min (x1, x2)\<close>,
  \<open>right = max (x1, x2)\<close>, \<open>top = min (y1, y2)\<close> and \<open>bottom = max (y1, y2)\<close>.  The result is
  stated with \<^verbatim>\<open>Math.min\<close> and \<^verbatim>\<open>Math.max\<close> for all coordinates and with the minimum and
  maximum of the reals for finite ones.
\<close>

theorem degenerate_arcBound:
  assumes "zero_radius arc \<or> same_ends arc"
  shows "arcBound arc =
       \<lparr>rect_left = Math_min [pt_x (arc_start arc), pt_x (arc_end arc)],
        rect_right = Math_max [pt_x (arc_start arc), pt_x (arc_end arc)],
        rect_top = Math_min [pt_y (arc_start arc), pt_y (arc_end arc)],
        rect_bottom = Math_max [pt_y (arc_start arc), pt_y (arc_end arc)]\<rparr> \<and>
     (is_fin (pt_x (arc_start arc)) \<and> is_fin (pt_x (arc_end arc)) \<longrightarrow>
        is_fin (rect_left (arcBound arc)) \<and> is_fin (rect_right (arcBound arc)) \<and>
        val (rect_left (arcBound arc)) =
          min (val (pt_x (arc_start arc))) (val (pt_x (arc_end arc))) \<and>
        val (rect_right (arcBound arc)) =
          max (val (pt_x (arc_start arc))) (val (pt_x (arc_end arc)))) \<and>
     (is_fin (pt_y (arc_start arc)) \<and> is_fin (pt_y (arc_end arc)) \<longrightarrow>
        is_fin (rect_top (arcBound arc)) \<and> is_fin (rect_bottom (arcBound arc)) \<and>
        val (rect_top (arcBound arc)) =
          min (val (pt_y (arc_start arc))) (val (pt_y (arc_end arc))) \<and>
        val (rect_bottom (arcBound arc)) =
          max (val (pt_y (arc_start arc))) (val (pt_y (arc_end arc))))"
  using assms by (simp add: arcBound_unfold Math_min_pair Math_max_pair)

theorem degenerate_arcBound_witness:
  "(zero_radius coincident_arc \<or> same_ends coincident_arc) \<and>
   arcBound coincident_arc =
     \<lparr>rect_left = Fin (- 1), rect_right = Fin (- 1), rect_top = Fin 0, rect_bottom = Fin 0\<rparr>"
proof -
  have s: "zero_radius coincident_arc \<or> same_ends coincident_arc"
    by (simp add: same_ends_def coincident_fields js_eq_def)
  show ?thesis
    using s degenerate_arcBound [OF s]
    by (simp add: coincident_fields Math_min_def Math_max_def js_min2_def js_max2_def js_lt_def)
qed

subsection \<open>Concrete scenario B\<close>

text \<open>
  Claim C7.  For the arc of scenario A, \<^verbatim>\<open>arcBound\<close> returns \<open>left = -1\<close>, \<open>right = 0\<close>,
  \<open>top = -1\<close> and \<open>bottom = 0\<close>: no stationary angle lies strictly inside the quarter arc,
  so its extrema are its endpoints.
\<close>

theorem scenario_arcBound:
  "arcBound scenario_arc =
     \<lparr>rect_left = Fin (- 1), rect_right = Fin 0, rect_top = Fin (- 1), rect_bottom = Fin 0\<rparr>"
  by (simp add: arcBound_unfold scenario_extrema zero_radius_def same_ends_def scenario_fields
      Math_min_def Math_max_def js_eq_def js_min2_def js_max2_def js_lt_def)

subsection \<open>The bounding box contains the endpoints\<close>



subsection \<open>The range of dtheta\<close>

text \<open>
  Claim C9 says that on the documented domain \<^verbatim>\<open>dtheta\<close> lies strictly between \<open>-2 * pi\<close> and
  \<open>2 * pi\<close> and is never zero.  On the valid arc from \<open>(-1, 0)\<close> to \<open>(-1, 0)\<close> with radii \<open>1\<close>
  the \<^verbatim>\<open>dtheta\<close> returned is NaN, which is neither above \<open>-2 * pi\<close> nor below \<open>2 * pi\<close>.
  (Lemma \<open>dtheta_sign\<close> shows the range for finite arcs with nonzero radii and distinct
  endpoints.)
\<close>

theorem coincident_ends_dtheta_NaN:
  "valid_arc coincident_arc \<and> \<not> zero_radius coincident_arc \<and>
   alt_dtheta (convertArcParams coincident_arc) = NaN \<and>
   \<not> js_gt (alt_dtheta (convertArcParams coincident_arc)) (js_mul (Fin (- 2)) Math_PI) \<and>
   \<not> js_lt (alt_dtheta (convertArcParams coincident_arc)) (js_mul (Fin 2) Math_PI)"
  by (simp add: coincident_convert coincident_valid zero_radius_def coincident_fields js_eq_def
      js_gt_def js_lt_def)

subsection \<open>The radii are never shrunk\<close>



end
